theory Spec2Isabelle
  imports Main
begin

section \<open>The LoRa manager of terkin/network/lora.py\<close>

text \<open>
  The class \<^verbatim>\<open>LoRaManager\<close> drives a Pycom LoRa radio: it issues an OTAA join request,
  polls the radio until it reports a join, creates a raw socket and sends and receives
  payloads through it. The model is a state-passing embedding: every method takes the
  state (the attributes of \<^verbatim>\<open>self\<close> together with the observable history of the outside
  world) and returns the outcome and the state it leaves behind. An exception is an
  outcome \<open>Inl e\<close>; the state returned with it is the state at the raise.
\<close>

subsection \<open>Values, exceptions and the outside world\<close>

text \<open>A byte is an int in \<^verbatim>\<open>range(256)\<close>; durations are in milliseconds
  (\<^verbatim>\<open>time.sleep(2.5)\<close> is \<open>Sleep 2500\<close>).\<close>

type_synonym byte = nat

datatype pyval =
    PyNone
  | PyBool bool
  | PyInt int
  | PyStr string
  | PyBytes "byte list"

type_synonym dict = "(string \<times> pyval) list"

datatype error =
    NameError
  | AttributeError
  | TypeError
  | KeyError
  | ValueError
  | OSError

datatype lora_mode = LORAWAN
datatype lora_region = EU868 | US915 | AS923 | AU915
datatype activation = OTAA | ABP

datatype auth =
    Auth2 "byte list" "byte list"
  | Auth3 "byte list" "byte list" "byte list"

datatype loglevel = Info | Error

text \<open>Everything the methods do to the outside world, in the order they do it.\<close>

datatype event =
    LoRaInit lora_mode lora_region
  | Join activation auth nat
  | HasJoined
  | SocketNew
  | SetSockOpt pyval
  | SetBlocking bool
  | SockSend "byte list"
  | SockRecvfrom nat
  | Sleep nat
  | Log loglevel string "pyval list"

text \<open>
  The radio stack is not part of the repository. Its answers are parameters of the model:
  the \<open>k\<close>-th call of \<^verbatim>\<open>has_joined()\<close> answers \<open>joined_answer k\<close>, and the \<open>k\<close>-th
  socket transfer answers \<open>send_answer k payload\<close> or \<open>recv_answer k bufsize\<close>, either
  of which may be a fault raised by the radio layer. The import
  \<^verbatim>\<open>from network import LoRa\<close>, the constructor, \<^verbatim>\<open>join\<close> (called with timeout 0, so it
  does not wait) and \<^verbatim>\<open>has_joined\<close> are taken to return normally.
\<close>

record platform =
  joined_answer :: "nat \<Rightarrow> bool"
  send_answer :: "nat \<Rightarrow> byte list \<Rightarrow> error + int"
  recv_answer :: "nat \<Rightarrow> nat \<Rightarrow> error + (byte list \<times> int)"

datatype radio = LoRa lora_mode lora_region
datatype sock = RawLoRaSocket

text \<open>
  An attribute of \<^verbatim>\<open>self\<close> that has never been assigned is \<open>None\<close> here; reading it
  raises \<^verbatim>\<open>AttributeError\<close>. \<^verbatim>\<open>__init__\<close> assigns only \<^verbatim>\<open>settings\<close> and
  \<^verbatim>\<open>otaa_settings\<close>.
\<close>

record state =
  settings :: "(string \<times> dict) list"
  otaa_settings :: "dict option"
  lora :: "radio option"
  lora_joined :: "pyval option"
  lora_socket :: "pyval option"
  socket :: "sock option"
  world :: platform
  polls :: nat
  transfers :: nat
  trace :: "event list"

definition init :: "(string \<times> dict) list \<Rightarrow> platform \<Rightarrow> state" where
  "init cfg w =
     \<lparr>settings = cfg, otaa_settings = map_of cfg ''networking.lora.otaa'',
      lora = None, lora_joined = None, lora_socket = None, socket = None,
      world = w, polls = 0, transfers = 0, trace = []\<rparr>"

definition emit :: "event \<Rightarrow> state \<Rightarrow> state" where
  "emit e s = s\<lparr>trace := trace s @ [e]\<rparr>"

definition sleep :: "nat \<Rightarrow> state \<Rightarrow> state" where
  "sleep ms s = emit (Sleep ms) s"

definition log_info :: "string \<Rightarrow> pyval list \<Rightarrow> state \<Rightarrow> state" where
  "log_info msg args s = emit (Log Info msg args) s"

definition log_error :: "string \<Rightarrow> pyval list \<Rightarrow> state \<Rightarrow> state" where
  "log_error msg args s = emit (Log Error msg args) s"

fun truthy :: "pyval \<Rightarrow> bool" where
  "truthy PyNone = False"
| "truthy (PyBool b) = b"
| "truthy (PyInt i) = (i \<noteq> 0)"
| "truthy (PyStr cs) = (cs \<noteq> [])"
| "truthy (PyBytes bs) = (bs \<noteq> [])"

subsection \<open>Name lookup in the module\<close>

text \<open>
  The module binds \<^verbatim>\<open>time\<close>, \<^verbatim>\<open>binascii\<close> and \<^verbatim>\<open>logging\<close> by its imports, then
  \<^verbatim>\<open>log\<close> and the class. A global name that is neither bound in the module nor a
  builtin raises \<^verbatim>\<open>NameError\<close> when it is evaluated; \<^verbatim>\<open>socket\<close> is not a builtin.
\<close>

definition lora_globals :: "string list" where
  "lora_globals = [''time'', ''binascii'', ''logging'', ''log'', ''LoRaManager'']"

definition lookup_global :: "string list \<Rightarrow> string \<Rightarrow> error + unit" where
  "lookup_global globals name = (if name \<in> set globals then Inr () else Inl NameError)"

text \<open>Subscription \<^verbatim>\<open>self.otaa_settings[key]\<close>: \<^verbatim>\<open>None\<close> is not subscriptable, a
  missing key raises.\<close>

definition otaa_item :: "state \<Rightarrow> string \<Rightarrow> error + pyval" where
  "otaa_item s key =
     (case otaa_settings s of
        None \<Rightarrow> Inl TypeError
      | Some d \<Rightarrow> (case map_of d key of None \<Rightarrow> Inl KeyError | Some v \<Rightarrow> Inr v))"

subsection \<open>create_lora_socket\<close>

text \<open>
  The method, for a module whose global names are \<open>globals\<close>. The two short sleeps are
  the loop \<^verbatim>\<open>for i in range(0,2): time.sleep(0.1)\<close>.
\<close>

fun signal_sleeps :: "nat \<Rightarrow> state \<Rightarrow> state" where
  "signal_sleeps 0 s = s"
| "signal_sleeps (Suc n) s = signal_sleeps n (sleep 100 s)"

definition create_lora_socket_in :: "string list \<Rightarrow> state \<Rightarrow> (error + pyval) \<times> state" where
  "create_lora_socket_in globals s =
     (let s1 = s\<lparr>lora_socket := Some PyNone\<rparr> in
      case lookup_global globals ''socket'' of
        Inl e \<Rightarrow> (Inl e, s1)
      | Inr _ \<Rightarrow>
          (let s2 = (emit SocketNew s1)\<lparr>socket := Some RawLoRaSocket\<rparr> in
           case otaa_item s2 ''datarate'' of
             Inl e \<Rightarrow> (Inl e, s2)
           | Inr dr \<Rightarrow>
               (let s3 = emit (SetSockOpt dr) s2;
                    s4 = emit (SetBlocking False) s3;
                    s5 = s4\<lparr>lora_socket := Some (PyBool True)\<rparr>;
                    s6 = log_info ''[LoRa] socket created'' [] s5;
                    s7 = signal_sleeps 2 s6;
                    s8 = sleep 4000 s7
                in (case lora_socket s8 of
                      None \<Rightarrow> (Inl AttributeError, s8)
                    | Some v \<Rightarrow> (Inr v, s8)))))"

definition create_lora_socket :: "state \<Rightarrow> (error + pyval) \<times> state" where
  "create_lora_socket s = create_lora_socket_in lora_globals s"

subsection \<open>binascii.unhexlify\<close>

text \<open>
  \<^verbatim>\<open>binascii.unhexlify\<close> turns two hexadecimal digits (of either case) into one byte
  and raises \<^verbatim>\<open>ValueError\<close> for an odd number of digits or a character that is not a
  digit. It takes a string or a bytes object; anything else is a \<^verbatim>\<open>TypeError\<close>.
\<close>

definition hex_digit :: "char \<Rightarrow> nat option" where
  "hex_digit c =
     (let n = (of_char c :: nat) in
      if 48 \<le> n \<and> n \<le> 57 then Some (n - 48)
      else if 65 \<le> n \<and> n \<le> 70 then Some (n - 55)
      else if 97 \<le> n \<and> n \<le> 102 then Some (n - 87)
      else None)"

fun unhexlify_str :: "string \<Rightarrow> error + byte list" where
  "unhexlify_str [] = Inr []"
| "unhexlify_str [c] = Inl ValueError"
| "unhexlify_str (c1 # c2 # cs) =
     (case hex_digit c1 of
        None \<Rightarrow> Inl ValueError
      | Some hi \<Rightarrow>
          (case hex_digit c2 of
             None \<Rightarrow> Inl ValueError
           | Some lo \<Rightarrow>
               (case unhexlify_str cs of
                  Inl e \<Rightarrow> Inl e
                | Inr bs \<Rightarrow> Inr ((16 * hi + lo) # bs))))"

fun unhexlify :: "pyval \<Rightarrow> error + byte list" where
  "unhexlify (PyStr cs) = unhexlify_str cs"
| "unhexlify (PyBytes bs) = unhexlify_str (map char_of bs)"
| "unhexlify _ = Inl TypeError"

subsection \<open>start_lora_join\<close>

text \<open>\<^verbatim>\<open>self.otaa_settings.get(key)\<close>: \<^verbatim>\<open>None\<close> has no \<^verbatim>\<open>get\<close>; a missing key
  gives \<^verbatim>\<open>None\<close>.\<close>

definition otaa_get :: "state \<Rightarrow> string \<Rightarrow> error + pyval" where
  "otaa_get s key =
     (case otaa_settings s of
        None \<Rightarrow> Inl AttributeError
      | Some d \<Rightarrow> (case map_of d key of None \<Rightarrow> Inr PyNone | Some v \<Rightarrow> Inr v))"

definition join :: "activation \<Rightarrow> auth \<Rightarrow> nat \<Rightarrow> state \<Rightarrow> (error + unit) \<times> state" where
  "join act a timeout s =
     (case lora s of
        None \<Rightarrow> (Inl AttributeError, s)
      | Some r \<Rightarrow> (Inr (), emit (Join act a timeout) s))"

text \<open>
  The radio object is built first, with the region fixed to \<^verbatim>\<open>LoRa.EU868\<close>; the
  identifiers are read and decoded after that, so a malformed identifier raises once
  the radio exists and before any join request.
\<close>

definition start_lora_join :: "state \<Rightarrow> (error + unit) \<times> state" where
  "start_lora_join s =
     (let s1 = (emit (LoRaInit LORAWAN EU868) s)\<lparr>lora := Some (LoRa LORAWAN EU868)\<rparr> in
      case otaa_item s1 ''application_eui'' of
        Inl e \<Rightarrow> (Inl e, s1)
      | Inr v1 \<Rightarrow>
      (case unhexlify v1 of
        Inl e \<Rightarrow> (Inl e, s1)
      | Inr app_eui \<Rightarrow>
      (case otaa_item s1 ''application_key'' of
        Inl e \<Rightarrow> (Inl e, s1)
      | Inr v2 \<Rightarrow>
      (case unhexlify v2 of
        Inl e \<Rightarrow> (Inl e, s1)
      | Inr app_key \<Rightarrow>
      (case otaa_get s1 ''device_eui'' of
        Inl e \<Rightarrow> (Inl e, s1)
      | Inr d \<Rightarrow>
          if d = PyNone then join OTAA (Auth2 app_eui app_key) 0 s1
          else
            (case otaa_item s1 ''device_eui'' of
               Inl e \<Rightarrow> (Inl e, s1)
             | Inr v3 \<Rightarrow>
                 (case unhexlify v3 of
                    Inl e \<Rightarrow> (Inl e, s1)
                  | Inr dev_eui \<Rightarrow> join OTAA (Auth3 dev_eui app_eui app_key) 0 s1)))))))"

subsection \<open>wait_for_lora_join\<close>

definition has_joined :: "state \<Rightarrow> (error + bool) \<times> state" where
  "has_joined s =
     (case lora s of
        None \<Rightarrow> (Inl AttributeError, s)
      | Some r \<Rightarrow>
          (Inr (joined_answer (world s) (polls s)),
           (emit HasJoined s)\<lparr>polls := Suc (polls s)\<rparr>))"

text \<open>
  The inner loop \<^verbatim>\<open>while not self.lora.has_joined(): ...\<close> has no bound of its own, so
  it is a partial function: \<open>None\<close> is the run that never leaves the loop.
\<close>

partial_function (option) poll_until_joined :: "state \<Rightarrow> ((error + unit) \<times> state) option" where
  "poll_until_joined s =
     (case has_joined s of
        (Inl e, s1) \<Rightarrow> Some (Inl e, s1)
      | (Inr j, s1) \<Rightarrow>
          if \<not> j
          then poll_until_joined
                 (log_info ''[LoRA] Not joined yet...'' [] (sleep 100 (sleep 2500 s1)))
          else Some (Inr (), s1))"

text \<open>The outer loop \<^verbatim>\<open>for i in range(0, attempts)\<close>, by the number of iterations left.\<close>

fun join_attempts :: "nat \<Rightarrow> state \<Rightarrow> ((error + unit) \<times> state) option" where
  "join_attempts 0 s = Some (Inr (), s)"
| "join_attempts (Suc n) s =
     (case poll_until_joined s of
        None \<Rightarrow> None
      | Some (Inl e, s1) \<Rightarrow> Some (Inl e, s1)
      | Some (Inr u, s1) \<Rightarrow> join_attempts n s1)"

text \<open>\<^verbatim>\<open>range(0, attempts)\<close> has \<open>nat attempts\<close> elements: none when \<open>attempts \<le> 0\<close>.\<close>

definition wait_for_lora_join :: "state \<Rightarrow> int \<Rightarrow> ((error + bool) \<times> state) option" where
  "wait_for_lora_join s attempts =
     (let s0 = s\<lparr>lora_joined := Some PyNone\<rparr> in
      case join_attempts (nat attempts) s0 of
        None \<Rightarrow> None
      | Some (Inl e, s1) \<Rightarrow> Some (Inl e, s1)
      | Some (Inr u, s1) \<Rightarrow>
          (case has_joined s1 of
             (Inl e, s2) \<Rightarrow> Some (Inl e, s2)
           | (Inr j, s2) \<Rightarrow>
               (let s3 = s2\<lparr>lora_joined := Some (PyBool j)\<rparr>;
                    s4 = (if j then log_info ''[LoRA] joined...'' [] s3
                          else log_info ''[LoRa] did not join in %s attempts''
                                 [PyInt attempts] s3)
                in Some (Inr j, s4))))"

subsection \<open>start\<close>

definition start :: "state \<Rightarrow> ((error + unit) \<times> state) option" where
  "start s =
     (case start_lora_join s of
        (Inl e, s1) \<Rightarrow> Some (Inl e, s1)
      | (Inr u, s1) \<Rightarrow>
          (case wait_for_lora_join s1 42 of
             None \<Rightarrow> None
           | Some (Inl e, s2) \<Rightarrow> Some (Inl e, s2)
           | Some (Inr w, s2) \<Rightarrow>
               (let s3 = sleep 2500 s2 in
                case lora_joined s3 of
                  None \<Rightarrow> Some (Inl AttributeError, s3)
                | Some j \<Rightarrow>
                    if truthy j
                    then (case create_lora_socket s3 of
                            (Inl e, s4) \<Rightarrow> Some (Inl e, s4)
                          | (Inr v, s4) \<Rightarrow> Some (Inr (), s4))
                    else Some (Inr (),
                               log_error ''[LoRa] Could not join network'' [] s3))))"

subsection \<open>lora_send and lora_receive\<close>

definition lora_send :: "state \<Rightarrow> byte list \<Rightarrow> (error + int) \<times> state" where
  "lora_send s payload =
     (case socket s of
        None \<Rightarrow> (Inl AttributeError, s)
      | Some sk \<Rightarrow>
          (let s1 = (emit (SockSend payload) s)\<lparr>transfers := Suc (transfers s)\<rparr> in
           case send_answer (world s) (transfers s) payload of
             Inl e \<Rightarrow> (Inl e, s1)
           | Inr success \<Rightarrow> (Inr success, signal_sleeps 2 s1)))"

definition lora_receive :: "state \<Rightarrow> (error + byte list \<times> int) \<times> state" where
  "lora_receive s =
     (case socket s of
        None \<Rightarrow> (Inl AttributeError, s)
      | Some sk \<Rightarrow>
          (let s1 = (emit (SockRecvfrom 256) s)\<lparr>transfers := Suc (transfers s)\<rparr> in
           case recv_answer (world s) (transfers s) 256 of
             Inl e \<Rightarrow> (Inl e, s1)
           | Inr (rx, port) \<Rightarrow>
               (let s2 = (if truthy (PyBytes rx)
                          then log_info ''[LoRa] Received: {}, on port: {}''
                                 [PyBytes rx, PyInt port] s1
                          else s1);
                    s3 = sleep 6000 s2
                in (Inr (rx, port), s3))))"

subsection \<open>Observations\<close>

text \<open>
  The manager's own mark of a usable socket is \<^verbatim>\<open>self.lora_socket = True\<close>, which
  \<^verbatim>\<open>create_lora_socket\<close> stores once the socket is made and configured.
\<close>

definition ready :: "state \<Rightarrow> bool" where
  "ready s = (lora_socket s = Some (PyBool True) \<and> socket s = Some RawLoRaSocket)"

text \<open>What a call added to the trace, and the durations it slept.\<close>

definition new_events :: "state \<Rightarrow> state \<Rightarrow> event list" where
  "new_events s s' = drop (length (trace s)) (trace s')"

fun sleeps :: "event list \<Rightarrow> nat list" where
  "sleeps [] = []"
| "sleeps (Sleep ms # es) = ms # sleeps es"
| "sleeps (e # es) = sleeps es"

text \<open>The events of the polling loops: status queries, sleeps and log lines.\<close>

fun polling_event :: "event \<Rightarrow> bool" where
  "polling_event HasJoined = True"
| "polling_event (Sleep ms) = True"
| "polling_event (Log lvl msg args) = True"
| "polling_event e = False"

subsection \<open>Stub radios and example settings\<close>

text \<open>
  A settings object with a device identifier, and radio stubs whose join status is a
  given sequence of answers; the stub socket accepts every payload whole and has
  \<open>k\<close> bytes to deliver at the \<open>k\<close>-th transfer.
\<close>

definition example_otaa :: dict where
  "example_otaa =
     [(''region'', PyStr ''LoRa.EU868''),
      (''application_eui'', PyStr ''70B3D57ED0001234''),
      (''application_key'', PyStr ''000102030405060708090a0b0c0d0e0f''),
      (''device_eui'', PyStr ''AA11''),
      (''datarate'', PyInt 0)]"

definition example_settings :: "(string \<times> dict) list" where
  "example_settings = [(''networking.lora.otaa'', example_otaa)]"

definition stub_radio :: "(nat \<Rightarrow> bool) \<Rightarrow> platform" where
  "stub_radio answers =
     \<lparr>joined_answer = answers,
      send_answer = (\<lambda>k payload. Inr (int (length payload))),
      recv_answer = (\<lambda>k bufsize. Inr (take bufsize (replicate k 7), 1))\<rparr>"

definition never_joined :: "nat \<Rightarrow> bool" where
  "never_joined k = False"

definition joined_from :: "nat \<Rightarrow> nat \<Rightarrow> bool" where
  "joined_from n k = (n \<le> k)"

definition joined_only_at :: "nat \<Rightarrow> nat \<Rightarrow> bool" where
  "joined_only_at n k = (k = n)"

definition joined_until :: "nat \<Rightarrow> nat \<Rightarrow> bool" where
  "joined_until n k = (k < n)"

text \<open>The manager after \<^verbatim>\<open>__init__\<close> and \<^verbatim>\<open>start_lora_join\<close>.\<close>

definition started :: "(nat \<Rightarrow> bool) \<Rightarrow> state" where
  "started answers = snd (start_lora_join (init example_settings (stub_radio answers)))"

text \<open>A state as a completed \<^verbatim>\<open>create_lora_socket\<close> would leave it.\<close>

definition ready_state :: state where
  "ready_state =
     (started (joined_from 0))
       \<lparr>lora_joined := Some (PyBool True), lora_socket := Some (PyBool True),
        socket := Some RawLoRaSocket\<rparr>"

subsection \<open>Reachable states\<close>


section \<open>Facts about the loops\<close>

lemma emit_fields [simp]:
  "settings (emit e s) = settings s" "otaa_settings (emit e s) = otaa_settings s"
  "lora (emit e s) = lora s" "lora_joined (emit e s) = lora_joined s"
  "lora_socket (emit e s) = lora_socket s" "socket (emit e s) = socket s"
  "world (emit e s) = world s" "polls (emit e s) = polls s"
  "transfers (emit e s) = transfers s" "trace (emit e s) = trace s @ [e]"
  by (simp_all add: emit_def)

lemma has_joined_bound:
  "lora s = Some r \<Longrightarrow>
   has_joined s = (Inr (joined_answer (world s) (polls s)),
                   s\<lparr>polls := Suc (polls s), trace := trace s @ [HasJoined]\<rparr>)"
  by (simp add: has_joined_def emit_def)

lemmas poll_until_joined_induct =
  poll_until_joined.raw_induct [rotated 1, consumes 1, case_names step]

text \<open>
  A run of the inner loop that ends leaves every attribute but the poll count and the
  trace alone, and (with a radio object) it ends only on an answer \<open>True\<close>.
\<close>

lemma poll_inv:
  assumes "poll_until_joined s = Some y"
  shows "world (snd y) = world s \<and> lora (snd y) = lora s \<and> settings (snd y) = settings s
     \<and> otaa_settings (snd y) = otaa_settings s \<and> lora_joined (snd y) = lora_joined s
     \<and> lora_socket (snd y) = lora_socket s \<and> socket (snd y) = socket s
     \<and> transfers (snd y) = transfers s
     \<and> (lora s \<noteq> None \<longrightarrow>
          fst y = Inr () \<and> polls s < polls (snd y)
          \<and> joined_answer (world s) (polls (snd y) - 1))"
  using assms
proof (induction s y rule: poll_until_joined_induct)
  case (step f s y)
  show ?case
  proof (cases "lora s")
    case None
    with step(2) show ?thesis by (auto simp: has_joined_def)
  next
    case (Some r)
    show ?thesis
    proof (cases "joined_answer (world s) (polls s)")
      case True
      with Some step(2) show ?thesis by (auto simp: has_joined_def)
    next
      case False
      with Some step(2) have again:
        "f (log_info ''[LoRA] Not joined yet...'' []
             (sleep 100 (sleep 2500 ((emit HasJoined s)\<lparr>polls := Suc (polls s)\<rparr>)))) = Some y"
        by (simp add: has_joined_def)
      from step(1)[OF again] Some show ?thesis
        by (auto simp add: log_info_def sleep_def)
    qed
  qed
qed

lemma poll_trace:
  assumes "poll_until_joined s = Some y"
  shows "\<exists>W. trace (snd y) = trace s @ W \<and> list_all polling_event W"
  using assms
proof (induction s y rule: poll_until_joined_induct)
  case (step f s y)
  show ?case
  proof (cases "lora s")
    case None
    with step(2) show ?thesis by (auto simp: has_joined_def)
  next
    case (Some r)
    show ?thesis
    proof (cases "joined_answer (world s) (polls s)")
      case True
      with Some step(2) show ?thesis by (auto simp: has_joined_def)
    next
      case False
      let ?round = "[HasJoined, Sleep 2500, Sleep 100, Log Info ''[LoRA] Not joined yet...'' []]"
      from False Some step(2) have again:
        "f (log_info ''[LoRA] Not joined yet...'' []
             (sleep 100 (sleep 2500 ((emit HasJoined s)\<lparr>polls := Suc (polls s)\<rparr>)))) = Some y"
        by (simp add: has_joined_def)
      from step(1)[OF again] obtain W where
        "trace (snd y) = trace s @ ?round @ W" and "list_all polling_event W"
        by (auto simp add: log_info_def sleep_def)
      then show ?thesis by (intro exI[of _ "?round @ W"]) simp
    qed
  qed
qed

lemma join_attempts_inv:
  "join_attempts n s = Some y \<Longrightarrow>
     world (snd y) = world s \<and> lora (snd y) = lora s \<and> settings (snd y) = settings s
     \<and> otaa_settings (snd y) = otaa_settings s \<and> lora_joined (snd y) = lora_joined s
     \<and> lora_socket (snd y) = lora_socket s \<and> socket (snd y) = socket s
     \<and> transfers (snd y) = transfers s
     \<and> (lora s \<noteq> None \<longrightarrow> fst y = Inr () \<and> polls s \<le> polls (snd y)
          \<and> (0 < n \<longrightarrow> polls s < polls (snd y)
                \<and> joined_answer (world s) (polls (snd y) - 1)))"
proof (induction n arbitrary: s)
  case 0
  then show ?case by auto
next
  case (Suc n)
  from Suc.prems obtain y1 where p: "poll_until_joined s = Some y1"
    by (auto split: option.splits)
  note i1 = poll_inv[OF p]
  show ?case
  proof (cases "fst y1")
    case (Inl e)
    with p Suc.prems have "y = y1" by (cases y1) (auto)
    with i1 Inl show ?thesis by auto
  next
    case (Inr u)
    with p Suc.prems have j: "join_attempts n (snd y1) = Some y" by (cases y1) auto
    note i2 = Suc.IH[OF j]
    show ?thesis
    proof (cases "lora s")
      case None
      with i1 i2 show ?thesis by auto
    next
      case (Some r)
      with i1 i2 j show ?thesis by (cases n) (auto)
    qed
  qed
qed

lemma join_attempts_trace:
  "join_attempts n s = Some y \<Longrightarrow>
   \<exists>W. trace (snd y) = trace s @ W \<and> list_all polling_event W"
proof (induction n arbitrary: s)
  case 0
  then show ?case by auto
next
  case (Suc n)
  from Suc.prems obtain y1 where p: "poll_until_joined s = Some y1"
    by (auto split: option.splits)
  from poll_trace[OF p] obtain W1 where
    w1: "trace (snd y1) = trace s @ W1" "list_all polling_event W1"
    by blast
  show ?case
  proof (cases "fst y1")
    case (Inl e)
    with p Suc.prems have "y = y1" by (cases y1) auto
    with w1 show ?thesis by blast
  next
    case (Inr u)
    with p Suc.prems have j: "join_attempts n (snd y1) = Some y" by (cases y1) auto
    from Suc.IH[OF j] obtain W2 where
      "trace (snd y) = trace (snd y1) @ W2" "list_all polling_event W2"
      by blast
    with w1 show ?thesis by (intro exI[of _ "W1 @ W2"]) simp
  qed
qed

text \<open>With a radio that never answers \<open>True\<close> the inner loop has no run that ends.\<close>

lemma poll_diverges:
  assumes "lora s = Some r" and "\<forall>k. \<not> joined_answer (world s) k"
  shows "poll_until_joined s = None"
proof (cases "poll_until_joined s")
  case None
  then show ?thesis .
next
  case (Some y)
  from poll_inv[OF Some] assms show ?thesis by auto
qed

lemma wait_diverges:
  assumes "lora s = Some r" and "\<forall>k. \<not> joined_answer (world s) k" and "1 \<le> attempts"
  shows "wait_for_lora_join s attempts = None"
proof -
  from assms(3) obtain n where n: "nat attempts = Suc n" by (cases "nat attempts") auto
  have "poll_until_joined (s\<lparr>lora_joined := Some PyNone\<rparr>) = None"
    using assms(1,2) by (intro poll_diverges[where r = r]) auto
  then show ?thesis by (simp add: wait_for_lora_join_def n)
qed

text \<open>The runs that do end, in closed form.\<close>

lemma poll_joins_after:
  assumes "lora s = Some r"
    and "\<forall>i<k. \<not> joined_answer (world s) (polls s + i)"
    and "joined_answer (world s) (polls s + k)"
  shows "poll_until_joined s =
         Some (Inr (), s\<lparr>polls := polls s + Suc k,
                          trace := trace s @
                            concat (replicate k [HasJoined, Sleep 2500, Sleep 100,
                                                 Log Info ''[LoRA] Not joined yet...'' []])
                            @ [HasJoined]\<rparr>)"
  using assms
proof (induction k arbitrary: s)
  case 0
  then show ?case
    by (subst poll_until_joined.simps) (simp add: has_joined_bound)
next
  case (Suc k)
  let ?s' = "log_info ''[LoRA] Not joined yet...'' []
               (sleep 100 (sleep 2500
                  (s\<lparr>polls := Suc (polls s), trace := trace s @ [HasJoined]\<rparr>)))"
  from Suc.prems(2) have nj: "\<not> joined_answer (world s) (polls s)"
    by (metis add.right_neutral zero_less_Suc)
  have l: "lora ?s' = Some r" using Suc.prems(1) by (simp add: log_info_def sleep_def)
  have a: "\<forall>i<k. \<not> joined_answer (world ?s') (polls ?s' + i)"
    using Suc.prems(2) by (auto simp add: log_info_def sleep_def)
  have b: "joined_answer (world ?s') (polls ?s' + k)"
    using Suc.prems(3) by (simp add: log_info_def sleep_def)
  have "poll_until_joined s = poll_until_joined ?s'"
    using nj Suc.prems(1) by (subst poll_until_joined.simps) (simp add: has_joined_bound)
  also note Suc.IH[OF l a b]
  finally show ?case
    by (simp add: log_info_def sleep_def emit_def)
qed

lemma join_attempts_joined:
  assumes "lora s = Some r" and "\<forall>i<n. joined_answer (world s) (polls s + i)"
  shows "join_attempts n s =
         Some (Inr (), s\<lparr>polls := polls s + n, trace := trace s @ replicate n HasJoined\<rparr>)"
  using assms
proof (induction n arbitrary: s)
  case 0
  then show ?case by simp
next
  case (Suc n)
  let ?s1 = "s\<lparr>polls := Suc (polls s), trace := trace s @ [HasJoined]\<rparr>"
  from Suc.prems(2) have j0: "joined_answer (world s) (polls s)"
    by (metis add.right_neutral zero_less_Suc)
  have p: "poll_until_joined s = Some (Inr (), ?s1)"
    using poll_joins_after[of s r 0] Suc.prems(1) j0 by simp
  have l: "lora ?s1 = Some r" using Suc.prems(1) by simp
  have a: "\<forall>i<n. joined_answer (world ?s1) (polls ?s1 + i)"
    using Suc.prems(2) by auto
  from Suc.IH[OF l a] p show ?case
    by (simp add: replicate_app_Cons_same)
qed

lemma wait_joined_closed:
  assumes "lora s = Some r"
    and "\<forall>i<k. \<not> joined_answer (world s) (polls s + i)"
    and "\<forall>i\<ge>k. joined_answer (world s) (polls s + i)"
    and "1 \<le> attempts"
  shows "wait_for_lora_join s attempts =
         Some (Inr True,
               s\<lparr>lora_joined := Some (PyBool True),
                  polls := polls s + Suc k + nat attempts,
                  trace := trace s @
                    concat (replicate k [HasJoined, Sleep 2500, Sleep 100,
                                         Log Info ''[LoRA] Not joined yet...'' []])
                    @ [HasJoined] @ replicate (nat attempts) HasJoined
                    @ [Log Info ''[LoRA] joined...'' []]\<rparr>)"
proof -
  from assms(4) obtain n where n: "nat attempts = Suc n" by (cases "nat attempts") auto
  have late: "joined_answer (world s) m" if "polls s + k \<le> m" for m
    using assms(3)[rule_format, of "m - polls s"] that by simp
  let ?w = "concat (replicate k [HasJoined, Sleep 2500, Sleep 100,
                                 Log Info ''[LoRA] Not joined yet...'' []])"
  let ?s0 = "s\<lparr>lora_joined := Some PyNone\<rparr>"
  let ?s1 = "?s0\<lparr>polls := polls ?s0 + Suc k, trace := trace ?s0 @ ?w @ [HasJoined]\<rparr>"
  let ?s2 = "?s1\<lparr>polls := polls ?s1 + n, trace := trace ?s1 @ replicate n HasJoined\<rparr>"
  have p: "poll_until_joined ?s0 = Some (Inr (), ?s1)"
    using assms(1,2) late by (intro poll_joins_after[where r = r]) auto
  have j: "join_attempts n ?s1 = Some (Inr (), ?s2)"
    using assms(1) late by (intro join_attempts_joined[where r = r]) auto
  have h: "has_joined ?s2 =
           (Inr True, ?s2\<lparr>polls := Suc (polls ?s2), trace := trace ?s2 @ [HasJoined]\<rparr>)"
    using assms(1) late by (simp add: has_joined_bound[where r = r])
  show ?thesis
    using p j h
    by (simp add: wait_for_lora_join_def n log_info_def emit_def replicate_app_Cons_same)
qed

text \<open>What a run of \<^verbatim>\<open>wait_for_lora_join\<close> that ends has done, on a manager with a radio.\<close>

lemma wait_result:
  assumes "wait_for_lora_join s attempts = Some (x, s2)" and "lora s = Some r"
  shows "\<exists>j W. x = Inr j \<and> lora_joined s2 = Some (PyBool j)
           \<and> trace s2 = trace s @ W \<and> list_all polling_event W
           \<and> lora_socket s2 = lora_socket s \<and> socket s2 = socket s
           \<and> settings s2 = settings s \<and> otaa_settings s2 = otaa_settings s
           \<and> lora s2 = lora s \<and> transfers s2 = transfers s \<and> world s2 = world s"
proof -
  let ?s0 = "s\<lparr>lora_joined := Some PyNone\<rparr>"
  from assms(1) obtain y where ja: "join_attempts (nat attempts) ?s0 = Some y"
    by (auto simp add: wait_for_lora_join_def Let_def split: option.splits)
  note inv = join_attempts_inv[OF ja]
  from inv assms(2) have fy: "fst y = Inr ()" and l1: "lora (snd y) = Some r" by auto
  from join_attempts_trace[OF ja] obtain W where
    w: "trace (snd y) = trace s @ W" "list_all polling_event W" by auto
  obtain s1 where y: "y = (Inr (), s1)" using fy by (cases y) auto
  let ?j = "joined_answer (world s1) (polls s1)"
  let ?s1' = "s1\<lparr>polls := Suc (polls s1), trace := trace s1 @ [HasJoined],
                 lora_joined := Some (PyBool ?j)\<rparr>"
  from l1 y have hj: "has_joined s1 =
      (Inr ?j, s1\<lparr>polls := Suc (polls s1), trace := trace s1 @ [HasJoined]\<rparr>)"
    by (simp add: has_joined_bound)
  from assms(1) ja y hj have
    "x = Inr ?j" and
    "s2 = (if ?j then log_info ''[LoRA] joined...'' [] ?s1'
           else log_info ''[LoRa] did not join in %s attempts'' [PyInt attempts] ?s1')"
    by (auto simp add: wait_for_lora_join_def Let_def)
  with inv w y show ?thesis
    by (cases ?j) (auto simp add: log_info_def)
qed

section \<open>Facts about the join request\<close>

lemma otaa_frame [simp]:
  "otaa_item (s\<lparr>lora := x\<rparr>) key = otaa_item s key"
  "otaa_item (emit e s) key = otaa_item s key"
  "otaa_get (s\<lparr>lora := x\<rparr>) key = otaa_get s key"
  "otaa_get (emit e s) key = otaa_get s key"
  "otaa_item (s\<lparr>trace := es\<rparr>) key = otaa_item s key"
  "otaa_get (s\<lparr>trace := es\<rparr>) key = otaa_get s key"
  by (simp_all add: otaa_item_def otaa_get_def)

lemma otaa_get_item:
  "otaa_get s key = Inr d \<Longrightarrow> d \<noteq> PyNone \<Longrightarrow> otaa_item s key = Inr d"
  by (auto simp add: otaa_get_def otaa_item_def split: option.splits)

lemma start_lora_join_ok:
  assumes "start_lora_join s = (Inr u, s1)"
  shows "\<exists>a. s1 = s\<lparr>lora := Some (LoRa LORAWAN EU868),
                     trace := trace s @ [LoRaInit LORAWAN EU868, Join OTAA a 0]\<rparr>"
  using assms
  by (auto simp add: start_lora_join_def Let_def join_def emit_def
      split: sum.splits if_splits)

lemma start_lora_join_frame:
  "settings (snd (start_lora_join s)) = settings s
   \<and> otaa_settings (snd (start_lora_join s)) = otaa_settings s
   \<and> socket (snd (start_lora_join s)) = socket s
   \<and> lora_socket (snd (start_lora_join s)) = lora_socket s
   \<and> lora_joined (snd (start_lora_join s)) = lora_joined s
   \<and> polls (snd (start_lora_join s)) = polls s
   \<and> transfers (snd (start_lora_join s)) = transfers s
   \<and> world (snd (start_lora_join s)) = world s"
  by (simp add: start_lora_join_def Let_def join_def split: sum.splits)

lemma started_eq:
  "started answers =
     \<lparr>settings = example_settings, otaa_settings = Some example_otaa,
      lora = Some (LoRa LORAWAN EU868), lora_joined = None, lora_socket = None,
      socket = None, world = stub_radio answers, polls = 0, transfers = 0,
      trace = [LoRaInit LORAWAN EU868,
               Join OTAA (Auth3 [170, 17] [112, 179, 213, 126, 208, 0, 18, 52]
                            [0, 1, 2, 3, 4, 5, 6, 7, 8, 9, 10, 11, 12, 13, 14, 15]) 0]\<rparr>"
  by (simp add: started_def start_lora_join_def init_def example_settings_def
      example_otaa_def otaa_item_def otaa_get_def hex_digit_def join_def emit_def)

lemma started_fields [simp]:
  "lora (started answers) = Some (LoRa LORAWAN EU868)"
  "world (started answers) = stub_radio answers"
  "polls (started answers) = 0"
  "joined_answer (stub_radio answers) = answers"
  by (simp_all add: started_eq stub_radio_def)

text \<open>Every byte \<^verbatim>\<open>unhexlify\<close> produces is in \<^verbatim>\<open>range(256)\<close>.\<close>

lemma unhexlify_str_bytes: "unhexlify_str cs = Inr bs \<Longrightarrow> \<forall>b\<in>set bs. b < 256"
proof (induction cs arbitrary: bs rule: unhexlify_str.induct)
  case 1
  then show ?case by simp
next
  case (2 c)
  then show ?case by simp
next
  case (3 c1 c2 cs)
  from "3.prems" obtain hi lo rest where
    h: "hex_digit c1 = Some hi" "hex_digit c2 = Some lo" "unhexlify_str cs = Inr rest"
       "bs = (16 * hi + lo) # rest"
    by (auto split: option.splits sum.splits)
  have d: "n < 16" if "hex_digit c = Some n" for c n
    using that by (auto simp add: hex_digit_def Let_def split: if_splits)
  from d[OF h(1)] d[OF h(2)] have "16 * hi + lo < 256" by simp
  moreover from "3.IH"[OF h(1) h(2) h(3)] have "\<forall>b\<in>set rest. b < 256" .
  ultimately show ?case using h(4) by simp
qed

text \<open>
  Whatever the settings hold, a join request that \<^verbatim>\<open>start_lora_join\<close> makes is an OTAA
  request with timeout 0 whose \<^verbatim>\<open>auth\<close> is the pair when the device identifier is
  \<^verbatim>\<open>None\<close> and the triple when it is not; with a setting that is missing or does not
  decode there is no join request.
\<close>

lemma start_lora_join_cases:
  "start_lora_join s =
     (let s1 = (emit (LoRaInit LORAWAN EU868) s)\<lparr>lora := Some (LoRa LORAWAN EU868)\<rparr> in
      case otaa_item s ''application_eui'' of
        Inl e \<Rightarrow> (Inl e, s1)
      | Inr v1 \<Rightarrow>
      (case unhexlify v1 of
        Inl e \<Rightarrow> (Inl e, s1)
      | Inr app_eui \<Rightarrow>
      (case otaa_item s ''application_key'' of
        Inl e \<Rightarrow> (Inl e, s1)
      | Inr v2 \<Rightarrow>
      (case unhexlify v2 of
        Inl e \<Rightarrow> (Inl e, s1)
      | Inr app_key \<Rightarrow>
      (case otaa_get s ''device_eui'' of
        Inl e \<Rightarrow> (Inl e, s1)
      | Inr d \<Rightarrow>
          if d = PyNone then (Inr (), emit (Join OTAA (Auth2 app_eui app_key) 0) s1)
          else
            (case unhexlify d of
               Inl e \<Rightarrow> (Inl e, s1)
             | Inr dev_eui \<Rightarrow>
                 (Inr (), emit (Join OTAA (Auth3 dev_eui app_eui app_key) 0) s1)))))))"
  by (simp add: start_lora_join_def Let_def join_def otaa_get_item
      split: sum.split)

lemma start_lora_join_variants:
  assumes "Join act au t \<in> set (new_events s (snd (start_lora_join s)))"
  shows "act = OTAA \<and> t = 0 \<and>
         (\<exists>v1 v2 a k d. otaa_item s ''application_eui'' = Inr v1 \<and> unhexlify v1 = Inr a
            \<and> otaa_item s ''application_key'' = Inr v2 \<and> unhexlify v2 = Inr k
            \<and> otaa_get s ''device_eui'' = Inr d
            \<and> (if d = PyNone then au = Auth2 a k
                else \<exists>dv. unhexlify d = Inr dv \<and> au = Auth3 dv a k))"
  using assms unfolding start_lora_join_cases Let_def new_events_def
  by (auto split: sum.splits if_splits)

section \<open>Facts about the socket and the whole start\<close>

lemma create_lora_socket_eq:
  "create_lora_socket s = (Inl NameError, s\<lparr>lora_socket := Some PyNone\<rparr>)"
  by (simp add: create_lora_socket_def create_lora_socket_in_def lookup_global_def
      lora_globals_def)

lemma create_lora_socket_in_ready:
  "create_lora_socket_in globals s = (Inr v, s') \<Longrightarrow> ready s'"
  by (auto simp add: create_lora_socket_in_def Let_def ready_def lookup_global_def
      log_info_def sleep_def numeral_2_eq_2 split: sum.splits if_splits option.splits)

lemma wait_frame:
  assumes "wait_for_lora_join s attempts = Some (x, s')"
  shows "settings s' = settings s \<and> otaa_settings s' = otaa_settings s
         \<and> socket s' = socket s \<and> lora_socket s' = lora_socket s
         \<and> lora s' = lora s \<and> world s' = world s \<and> transfers s' = transfers s"
proof -
  let ?s0 = "s\<lparr>lora_joined := Some PyNone\<rparr>"
  from assms obtain y where ja: "join_attempts (nat attempts) ?s0 = Some y"
    by (auto simp add: wait_for_lora_join_def Let_def split: option.splits)
  note inv = join_attempts_inv[OF ja]
  obtain e s1 where y: "y = (e, s1)" by (cases y)
  show ?thesis
  proof (cases e)
    case (Inl err)
    with assms ja y have "s' = s1" by (simp add: wait_for_lora_join_def Let_def)
    with inv y show ?thesis by simp
  next
    case (Inr u)
    show ?thesis
    proof (cases "lora s1")
      case None
      with assms ja y Inr have "s' = s1"
        by (simp add: wait_for_lora_join_def Let_def has_joined_def)
      with inv y show ?thesis by simp
    next
      case (Some r)
      with assms ja y Inr inv show ?thesis
        by (auto simp add: wait_for_lora_join_def Let_def has_joined_def log_info_def
            split: if_splits)
    qed
  qed
qed



lemma signal_sleeps_2: "signal_sleeps 2 s = s\<lparr>trace := trace s @ [Sleep 100, Sleep 100]\<rparr>"
  by (simp add: numeral_2_eq_2 sleep_def emit_def)

lemma new_events_append [simp]:
  "trace s' = trace s @ es \<Longrightarrow> new_events s s' = es"
  by (simp add: new_events_def)

lemma start_lora_join_example:
  "start_lora_join (init example_settings (stub_radio answers)) = (Inr (), started answers)"
proof -
  have "fst (start_lora_join (init example_settings (stub_radio answers))) = Inr ()"
    by (simp add: start_lora_join_def init_def example_settings_def
        example_otaa_def otaa_item_def otaa_get_def hex_digit_def join_def emit_def)
  then show ?thesis by (simp add: started_def prod_eq_iff)
qed

lemma wait_budget_exhausted:
  assumes "lora s = Some r"
    and "\<forall>i<nat attempts. joined_answer (world s) (polls s + i)"
    and "\<not> joined_answer (world s) (polls s + nat attempts)"
  shows "wait_for_lora_join s attempts =
         Some (Inr False,
               s\<lparr>lora_joined := Some (PyBool False),
                  polls := polls s + Suc (nat attempts),
                  trace := trace s @ replicate (nat attempts) HasJoined @
                    [HasJoined,
                     Log Info ''[LoRa] did not join in %s attempts'' [PyInt attempts]]\<rparr>)"
proof -
  let ?s0 = "s\<lparr>lora_joined := Some PyNone\<rparr>"
  let ?s1 = "?s0\<lparr>polls := polls ?s0 + nat attempts,
                 trace := trace ?s0 @ replicate (nat attempts) HasJoined\<rparr>"
  have j: "join_attempts (nat attempts) ?s0 = Some (Inr (), ?s1)"
    using assms(1,2) by (intro join_attempts_joined[where r = r]) auto
  have h: "has_joined ?s1 =
           (Inr False, ?s1\<lparr>polls := Suc (polls ?s1), trace := trace ?s1 @ [HasJoined]\<rparr>)"
    using assms(1,3) by (simp add: has_joined_bound[where r = r])
  show ?thesis
    using j h by (simp add: wait_for_lora_join_def log_info_def emit_def)
qed

text \<open>\<^verbatim>\<open>start\<close> passes on an exception of the join request, and never returns when the
  wait never returns.\<close>

lemma start_join_error:
  "start_lora_join s = (Inl e, s1) \<Longrightarrow> start s = Some (Inl e, s1)"
  by (simp add: start_def)

lemma start_wait_diverges:
  "start_lora_join s = (Inr u, s1) \<Longrightarrow> wait_for_lora_join s1 42 = None \<Longrightarrow> start s = None"
  by (simp add: start_def)

text \<open>
  When the join request raised nothing and \<^verbatim>\<open>wait_for_lora_join(42)\<close>, run on the state the
  request left, returns, then \<^verbatim>\<open>start\<close> returns, and it has done this: the radio was built
  and one join request made, before anything else; then the wait added only status
  queries, sleeps and log lines; then came one sleep of 2.5 s. With the joined flag
  \<^verbatim>\<open>j\<close> true the run ends as \<^verbatim>\<open>create_lora_socket\<close> ends, and with \<^verbatim>\<open>j\<close> false it logs
  the error \<^verbatim>\<open>Could not join network\<close> and returns, with no second join request and
  \<^verbatim>\<open>self.socket\<close> and \<^verbatim>\<open>self.lora_socket\<close> untouched.
\<close>

lemma start_after_wait:
  assumes "start_lora_join s = (Inr u, s1)" and "wait_for_lora_join s1 42 = Some (w, s2)"
  shows "\<exists>j a s'. w = Inr j
          \<and> start s = Some (if j then Inl NameError else Inr (), s')
          \<and> s' = (if j then snd (create_lora_socket (sleep 2500 s2))
                   else log_error ''[LoRa] Could not join network'' [] (sleep 2500 s2))
          \<and> new_events s s1 = [LoRaInit LORAWAN EU868, Join OTAA a 0]
          \<and> list_all polling_event (new_events s1 s2)
          \<and> new_events s s' =
              new_events s s1 @ new_events s1 s2 @ [Sleep 2500]
              @ (if j then [] else [Log Error ''[LoRa] Could not join network'' []])
          \<and> lora_joined s' = Some (PyBool j)
          \<and> socket s' = socket s
          \<and> lora_socket s' = (if j then Some PyNone else lora_socket s)"
proof -
  from start_lora_join_ok[OF assms(1)] obtain a where
    s1: "s1 = s\<lparr>lora := Some (LoRa LORAWAN EU868),
                 trace := trace s @ [LoRaInit LORAWAN EU868, Join OTAA a 0]\<rparr>"
    by blast
  then have l1: "lora s1 = Some (LoRa LORAWAN EU868)" by simp
  from wait_result[OF assms(2) l1] obtain j W where
    r: "w = Inr j" "lora_joined s2 = Some (PyBool j)" "trace s2 = trace s1 @ W"
       "list_all polling_event W" "lora_socket s2 = lora_socket s1" "socket s2 = socket s1"
    by blast
  define s' where
    "s' = (if j then snd (create_lora_socket (sleep 2500 s2))
           else log_error ''[LoRa] Could not join network'' [] (sleep 2500 s2))"
  have st: "start s = Some (if j then Inl NameError else Inr (), s')"
    using assms r
    by (simp add: s'_def start_def Let_def sleep_def create_lora_socket_eq)
  have "new_events s s1 = [LoRaInit LORAWAN EU868, Join OTAA a 0]"
    using s1 by (simp add: new_events_def)
  moreover have "list_all polling_event (new_events s1 s2)"
    using r by (simp add: new_events_def)
  moreover have "new_events s s' =
              new_events s s1 @ new_events s1 s2 @ [Sleep 2500]
              @ (if j then [] else [Log Error ''[LoRa] Could not join network'' []])"
    using r s1
    by (simp add: s'_def new_events_def sleep_def log_error_def create_lora_socket_eq)
  moreover have "lora_joined s' = Some (PyBool j)"
    using r by (simp add: s'_def sleep_def log_error_def create_lora_socket_eq)
  moreover have "socket s' = socket s"
    using r s1 by (simp add: s'_def sleep_def log_error_def create_lora_socket_eq)
  moreover have "lora_socket s' = (if j then Some PyNone else lora_socket s)"
    using r s1 by (simp add: s'_def sleep_def log_error_def create_lora_socket_eq)
  ultimately show ?thesis using st r(1) s'_def by blast
qed

lemma start_after_wait_examples:
  "start_lora_join (init example_settings (stub_radio (joined_from 0)))
       = (Inr (), started (joined_from 0))
   \<and> start_lora_join (init example_settings (stub_radio (joined_until 42)))
       = (Inr (), started (joined_until 42))
   \<and> start (init example_settings (stub_radio (joined_from 0))) =
     Some (Inl NameError,
           (started (joined_from 0))
             \<lparr>lora_joined := Some (PyBool True), lora_socket := Some PyNone, polls := 43,
              trace := trace (started (joined_from 0))
                @ HasJoined # replicate 42 HasJoined
                @ [Log Info ''[LoRA] joined...'' [], Sleep 2500]\<rparr>)
   \<and> start (init example_settings (stub_radio (joined_until 42))) =
     Some (Inr (),
           (started (joined_until 42))
             \<lparr>lora_joined := Some (PyBool False), polls := 43,
              trace := trace (started (joined_until 42))
                @ replicate 42 HasJoined
                @ [HasJoined,
                   Log Info ''[LoRa] did not join in %s attempts'' [PyInt 42],
                   Sleep 2500,
                   Log Error ''[LoRa] Could not join network'' []]\<rparr>)
   \<and> socket (started (joined_until 42)) = None
   \<and> lora_socket (started (joined_until 42)) = None"
proof -
  let ?a = "init example_settings (stub_radio (joined_from 0))"
  let ?b = "init example_settings (stub_radio (joined_until 42))"
  have wa: "wait_for_lora_join (started (joined_from 0)) 42 =
     Some (Inr True,
           (started (joined_from 0))
             \<lparr>lora_joined := Some (PyBool True), polls := 43,
              trace := trace (started (joined_from 0))
                @ HasJoined # replicate 42 HasJoined @ [Log Info ''[LoRA] joined...'' []]\<rparr>)"
    using wait_joined_closed [of "started (joined_from 0)" "LoRa LORAWAN EU868" 0 42]
    by (simp add: joined_from_def)
  have wb: "wait_for_lora_join (started (joined_until 42)) 42 =
     Some (Inr False,
           (started (joined_until 42))
             \<lparr>lora_joined := Some (PyBool False), polls := 43,
              trace := trace (started (joined_until 42))
                @ replicate 42 HasJoined
                @ [HasJoined,
                   Log Info ''[LoRa] did not join in %s attempts'' [PyInt 42]]\<rparr>)"
    using wait_budget_exhausted [of "started (joined_until 42)" "LoRa LORAWAN EU868" 42]
    by (simp add: joined_until_def)
  from start_after_wait [OF start_lora_join_example wa]
       start_after_wait [OF start_lora_join_example wb]
  show ?thesis
    by (auto simp add: start_lora_join_example started_eq sleep_def log_error_def emit_def
        create_lora_socket_eq)
qed

text \<open>
  With a radio that never answers \<^verbatim>\<open>True\<close>, a \<^verbatim>\<open>start\<close> whose join request raised nothing
  never returns; so a \<^verbatim>\<open>start\<close> that returns normally has seen some answer \<^verbatim>\<open>True\<close>.
\<close>

lemma start_hangs:
  assumes "start_lora_join s = (Inr u, s1)" and "\<forall>k. \<not> joined_answer (world s) k"
  shows "start s = None"
proof -
  from start_lora_join_ok[OF assms(1)] have l1: "lora s1 = Some (LoRa LORAWAN EU868)"
    by auto
  from start_lora_join_frame[of s] assms(1) have "world s1 = world s" by simp
  with assms(2) have "\<forall>k. \<not> joined_answer (world s1) k" by simp
  from wait_diverges[OF l1 this] have "wait_for_lora_join s1 42 = None" by simp
  with assms(1) show ?thesis by (simp add: start_def)
qed

lemma start_failure_report_needs_join:
  assumes "start s = Some (Inr (), s')"
  shows "\<exists>k. joined_answer (world s) k"
proof (rule ccontr)
  assume "\<not> (\<exists>k. joined_answer (world s) k)"
  then have nj: "\<forall>k. \<not> joined_answer (world s) k" by simp
  obtain r1 s1 where sj: "start_lora_join s = (r1, s1)" by (cases "start_lora_join s")
  show False
  proof (cases r1)
    case (Inl e)
    with sj assms show False by (simp add: start_def)
  next
    case (Inr u)
    with sj have "start_lora_join s = (Inr u, s1)" by simp
    from start_hangs[OF this nj] assms show False by simp
  qed
qed

section \<open>Socket creation\<close>

text \<open>
  C9. Every call of \<^verbatim>\<open>create_lora_socket\<close> raises \<^verbatim>\<open>NameError\<close> at the first
  evaluation of \<^verbatim>\<open>socket.socket\<close>, because the module never binds the name
  \<^verbatim>\<open>socket\<close>: nothing has been asked of the radio by then (the trace, the poll count
  and the transfer count are those of the call's start), \<^verbatim>\<open>self.socket\<close> is not
  assigned, and \<^verbatim>\<open>self.lora_socket\<close> is the \<^verbatim>\<open>None\<close> the method's first statement
  stored.
\<close>

theorem create_lora_socket_name_error:
  "create_lora_socket s = (Inl NameError, s\<lparr>lora_socket := Some PyNone\<rparr>)
   \<and> ''socket'' \<notin> set lora_globals
   \<and> trace (snd (create_lora_socket s)) = trace s
   \<and> polls (snd (create_lora_socket s)) = polls s
   \<and> transfers (snd (create_lora_socket s)) = transfers s
   \<and> socket (snd (create_lora_socket s)) = socket s
   \<and> lora_socket (snd (create_lora_socket s)) = Some PyNone"
  by (simp add: create_lora_socket_def create_lora_socket_in_def lookup_global_def
      lora_globals_def)

section \<open>Waiting for the join\<close>

text \<open>
  C1. The outer loop of \<^verbatim>\<open>wait_for_lora_join\<close> runs at most \<open>attempts\<close> times, but an
  outer attempt has no bound of its own: on a manager with a radio whose
  \<^verbatim>\<open>has_joined()\<close> never answers \<open>True\<close>, a call with a budget of at least one attempt
  never leaves the inner loop of the first attempt. It does not return \<open>False\<close> after
  \<open>attempts\<close> iterations; it does not return at all.
\<close>

theorem wait_for_lora_join_never_joined:
  assumes "lora s = Some r" and "\<forall>k. \<not> joined_answer (world s) k" and "1 \<le> attempts"
  shows "wait_for_lora_join s attempts = None"
proof -
  from assms(3) obtain n where n: "nat attempts = Suc n" by (cases "nat attempts") auto
  have "poll_until_joined (s\<lparr>lora_joined := Some PyNone\<rparr>) = None"
    using assms(1,2) by (intro poll_diverges[where r = r]) auto
  then show ?thesis by (simp add: wait_for_lora_join_def n)
qed

theorem wait_for_lora_join_never_joined_witness:
  "lora (started never_joined) = Some (LoRa LORAWAN EU868)
   \<and> (\<forall>k. \<not> joined_answer (world (started never_joined)) k)
   \<and> (1::int) \<le> 42
   \<and> wait_for_lora_join (started never_joined) 42 = None"
  using wait_for_lora_join_never_joined [of "started never_joined" "LoRa LORAWAN EU868" 42]
  by (simp add: never_joined_def)

text \<open>
  C4, as the code has it. For a radio that answers \<open>False\<close> to the first \<open>k\<close> status
  queries of the call and \<open>True\<close> to every later one, a call with a budget of at least one
  attempt returns \<open>True\<close> and stores it in \<^verbatim>\<open>self.lora_joined\<close>. It sleeps only before the
  first \<open>True\<close>; after it, it asks the radio again once for each remaining outer iteration
  and once for the final status read, \<open>attempts\<close> further queries in all. The number \<open>k\<close>
  is not bounded by the budget.
\<close>

theorem wait_for_lora_join_joined:
  assumes "lora s = Some r"
    and "\<forall>i<k. \<not> joined_answer (world s) (polls s + i)"
    and "\<forall>i\<ge>k. joined_answer (world s) (polls s + i)"
    and "1 \<le> attempts"
  shows "\<exists>s'. wait_for_lora_join s attempts = Some (Inr True, s')
          \<and> lora_joined s' = Some (PyBool True)
          \<and> polls s' = polls s + Suc k + nat attempts
          \<and> new_events s s' =
              concat (replicate k [HasJoined, Sleep 2500, Sleep 100,
                                   Log Info ''[LoRA] Not joined yet...'' []])
              @ [HasJoined] @ replicate (nat attempts) HasJoined
              @ [Log Info ''[LoRA] joined...'' []]"
  using wait_joined_closed[OF assms] by (simp add: new_events_def)

theorem wait_for_lora_join_joined_witness:
  "lora (started (joined_from 1)) = Some (LoRa LORAWAN EU868)
   \<and> polls (started (joined_from 1)) = 0
   \<and> \<not> joined_answer (world (started (joined_from 1))) 0
   \<and> (\<forall>i. joined_answer (world (started (joined_from 1))) (Suc i))
   \<and> (1::int) \<le> 2
   \<and> (\<exists>s'. wait_for_lora_join (started (joined_from 1)) 2 = Some (Inr True, s')
        \<and> lora_joined s' = Some (PyBool True)
        \<and> polls s' = 4
        \<and> new_events (started (joined_from 1)) s' =
             [HasJoined, Sleep 2500, Sleep 100, Log Info ''[LoRA] Not joined yet...'' [],
              HasJoined, HasJoined, HasJoined, Log Info ''[LoRA] joined...'' []])"
  using wait_for_lora_join_joined [of "started (joined_from 1)" "LoRa LORAWAN EU868" 1 2]
  by (auto simp add: joined_from_def numeral_2_eq_2)

text \<open>
  C4, as stated, fails: with a radio that is joined from the first query on and a budget
  of one attempt, the first query (poll count 0) already answers \<open>True\<close>, and the call
  still makes a second query before it returns.
\<close>

theorem wait_for_lora_join_polls_again_counterexample:
  "joined_answer (world (started (joined_from 0))) 0
   \<and> polls (started (joined_from 0)) = 0
   \<and> wait_for_lora_join (started (joined_from 0)) 1 =
        Some (Inr True,
              (started (joined_from 0))
                \<lparr>lora_joined := Some (PyBool True), polls := 2,
                 trace := trace (started (joined_from 0))
                          @ [HasJoined, HasJoined, Log Info ''[LoRA] joined...'' []]\<rparr>)"
  using wait_joined_closed [of "started (joined_from 0)" "LoRa LORAWAN EU868" 0 1]
  by (simp add: joined_from_def)

text \<open>
  C10, as the code has it. With a budget of at least one attempt and a radio whose join
  status, once \<open>True\<close>, stays \<open>True\<close>, a call that returns normally returns \<open>True\<close>.
\<close>

theorem wait_for_lora_join_stable_radio:
  assumes "wait_for_lora_join s attempts = Some (Inr j, s')"
    and "1 \<le> attempts"
    and "\<forall>i. joined_answer (world s) i \<longrightarrow> joined_answer (world s) (Suc i)"
  shows "j"
proof -
  let ?s0 = "s\<lparr>lora_joined := Some PyNone\<rparr>"
  from assms(1) obtain u s1 where ja: "join_attempts (nat attempts) ?s0 = Some (Inr u, s1)"
    and hj: "fst (has_joined s1) = Inr j"
    by (auto simp add: wait_for_lora_join_def Let_def
        split: option.splits sum.splits prod.splits)
  from hj have l1: "lora s1 \<noteq> None" and j: "j = joined_answer (world s1) (polls s1)"
    by (auto simp add: has_joined_def split: option.splits)
  note inv = join_attempts_inv[OF ja]
  from inv l1 have l0: "lora ?s0 \<noteq> None" by simp
  from assms(2) have "0 < nat attempts" by simp
  with inv l0 have lt: "polls s < polls s1" and a: "joined_answer (world s) (polls s1 - 1)"
    and w: "world s1 = world s" by auto
  from assms(3)[rule_format, OF a] have "joined_answer (world s) (Suc (polls s1 - 1))" .
  moreover from lt have "Suc (polls s1 - 1) = polls s1" by simp
  ultimately show ?thesis using w j by simp
qed

theorem wait_for_lora_join_stable_radio_witness:
  "(\<exists>s'. wait_for_lora_join (started (joined_from 1)) 1 = Some (Inr True, s'))
   \<and> (1::int) \<le> 1
   \<and> \<not> joined_answer (world (started (joined_from 1))) 0
   \<and> (\<forall>i. joined_answer (world (started (joined_from 1))) (Suc i))"
proof -
  obtain s' where run: "wait_for_lora_join (started (joined_from 1)) 1 = Some (Inr True, s')"
    using wait_joined_closed [of "started (joined_from 1)" "LoRa LORAWAN EU868" 1 1]
    by (simp add: joined_from_def)
  have stable: "\<forall>i. joined_answer (world (started (joined_from 1))) i
          \<longrightarrow> joined_answer (world (started (joined_from 1))) (Suc i)"
    by (simp add: joined_from_def)
  from wait_for_lora_join_stable_radio [OF run _ stable] run show ?thesis
    by (auto simp add: joined_from_def)
qed

text \<open>
  C10, as stated for every radio, fails: a radio that answers \<open>True\<close> to the first query
  and \<open>False\<close> to the second lets the single attempt pass, and the final status read
  then returns \<open>False\<close>: a normal return with a positive budget and a false result.
\<close>

theorem wait_for_lora_join_unstable_radio_counterexample:
  "(1::int) \<le> 1
   \<and> wait_for_lora_join (started (joined_only_at 0)) 1 =
        Some (Inr False,
              (started (joined_only_at 0))
                \<lparr>lora_joined := Some (PyBool False), polls := 2,
                 trace := trace (started (joined_only_at 0))
                          @ [HasJoined, HasJoined,
                             Log Info ''[LoRa] did not join in %s attempts'' [PyInt 1]]\<rparr>)"
proof -
  let ?s = "started (joined_only_at 0)"
  let ?s0 = "?s\<lparr>lora_joined := Some PyNone\<rparr>"
  have p: "poll_until_joined ?s0 =
           Some (Inr (), ?s0\<lparr>polls := polls ?s0 + Suc 0,
                   trace := trace ?s0 @
                     concat (replicate 0 [HasJoined, Sleep 2500, Sleep 100,
                                          Log Info ''[LoRA] Not joined yet...'' []])
                     @ [HasJoined]\<rparr>)"
    by (rule poll_joins_after[where r = "LoRa LORAWAN EU868"])
       (simp_all add: joined_only_at_def)
  show ?thesis
    using p
    by (simp add: wait_for_lora_join_def has_joined_def joined_only_at_def log_info_def
        emit_def)
qed

section \<open>The join request\<close>

text \<open>
  C3. When the application identifier and the application key are present and decode,
  \<^verbatim>\<open>start_lora_join\<close> builds the radio and makes exactly one join request, with
  activation OTAA and timeout 0. Its \<^verbatim>\<open>auth\<close> is the pair (app_eui, app_key) exactly when
  \<^verbatim>\<open>otaa_settings.get('device_eui')\<close> is \<^verbatim>\<open>None\<close>, and the triple
  (dev_eui, app_eui, app_key) exactly when it is not; every identifier is the
  \<^verbatim>\<open>unhexlify\<close> of its setting, and \<^verbatim>\<open>"AA11"\<close> decodes to the bytes 0xAA, 0x11.
\<close>

theorem start_lora_join_auth:
  assumes "otaa_item s ''application_eui'' = Inr v1" and "unhexlify v1 = Inr app_eui"
    and "otaa_item s ''application_key'' = Inr v2" and "unhexlify v2 = Inr app_key"
    and "otaa_get s ''device_eui'' = Inr d"
    and "d \<noteq> PyNone \<longrightarrow> unhexlify d = Inr dev_eui"
  shows "start_lora_join s =
           (Inr (), s\<lparr>lora := Some (LoRa LORAWAN EU868),
                       trace := trace s @
                         [LoRaInit LORAWAN EU868,
                          Join OTAA (if d = PyNone then Auth2 app_eui app_key
                                     else Auth3 dev_eui app_eui app_key) 0]\<rparr>)
         \<and> ((\<exists>x y. Join OTAA (Auth2 x y) 0 \<in> set (new_events s (snd (start_lora_join s))))
              \<longleftrightarrow> d = PyNone)
         \<and> ((\<exists>x y z. Join OTAA (Auth3 x y z) 0 \<in> set (new_events s (snd (start_lora_join s))))
              \<longleftrightarrow> d \<noteq> PyNone)
         \<and> unhexlify (PyStr ''AA11'') = Inr [0xAA, 0x11]"
proof -
  have eq: "start_lora_join s =
           (Inr (), s\<lparr>lora := Some (LoRa LORAWAN EU868),
                       trace := trace s @
                         [LoRaInit LORAWAN EU868,
                          Join OTAA (if d = PyNone then Auth2 app_eui app_key
                                     else Auth3 dev_eui app_eui app_key) 0]\<rparr>)"
    using assms otaa_get_item[OF assms(5)]
    by (simp add: start_lora_join_def Let_def join_def emit_def)
  have hex: "unhexlify (PyStr ''AA11'') = Inr [0xAA, 0x11]"
    by (simp add: hex_digit_def)
  from eq hex show ?thesis by (simp add: new_events_def)
qed

theorem start_lora_join_auth_witness:
  "otaa_item (init example_settings (stub_radio never_joined)) ''application_eui''
     = Inr (PyStr ''70B3D57ED0001234'')
   \<and> unhexlify (PyStr ''70B3D57ED0001234'') = Inr [112, 179, 213, 126, 208, 0, 18, 52]
   \<and> otaa_item (init example_settings (stub_radio never_joined)) ''application_key''
     = Inr (PyStr ''000102030405060708090a0b0c0d0e0f'')
   \<and> unhexlify (PyStr ''000102030405060708090a0b0c0d0e0f'')
     = Inr [0, 1, 2, 3, 4, 5, 6, 7, 8, 9, 10, 11, 12, 13, 14, 15]
   \<and> otaa_get (init example_settings (stub_radio never_joined)) ''device_eui''
     = Inr (PyStr ''AA11'')
   \<and> PyStr ''AA11'' \<noteq> PyNone
   \<and> unhexlify (PyStr ''AA11'') = Inr [170, 17]
   \<and> new_events (init example_settings (stub_radio never_joined))
        (snd (start_lora_join (init example_settings (stub_radio never_joined))))
      = [LoRaInit LORAWAN EU868,
         Join OTAA (Auth3 [170, 17] [112, 179, 213, 126, 208, 0, 18, 52]
                      [0, 1, 2, 3, 4, 5, 6, 7, 8, 9, 10, 11, 12, 13, 14, 15]) 0]"
proof -
  let ?s = "init example_settings (stub_radio never_joined)"
  have h1: "otaa_item ?s ''application_eui'' = Inr (PyStr ''70B3D57ED0001234'')"
    by (simp add: otaa_item_def init_def example_settings_def example_otaa_def)
  have h2: "unhexlify (PyStr ''70B3D57ED0001234'') = Inr [112, 179, 213, 126, 208, 0, 18, 52]"
    by (simp add: hex_digit_def)
  have h3: "otaa_item ?s ''application_key'' = Inr (PyStr ''000102030405060708090a0b0c0d0e0f'')"
    by (simp add: otaa_item_def init_def example_settings_def example_otaa_def)
  have h4: "unhexlify (PyStr ''000102030405060708090a0b0c0d0e0f'')
            = Inr [0, 1, 2, 3, 4, 5, 6, 7, 8, 9, 10, 11, 12, 13, 14, 15]"
    by (simp add: hex_digit_def)
  have h5: "otaa_get ?s ''device_eui'' = Inr (PyStr ''AA11'')"
    by (simp add: otaa_get_def init_def example_settings_def example_otaa_def)
  have h6: "PyStr ''AA11'' \<noteq> PyNone \<longrightarrow> unhexlify (PyStr ''AA11'') = Inr [170, 17]"
    by (simp add: hex_digit_def)
  from start_lora_join_auth [OF h1 h2 h3 h4 h5 h6] h1 h2 h3 h4 h5 h6 show ?thesis
    by (simp add: new_events_def)
qed

section \<open>The start sequence\<close>

text \<open>
  C2. \<^verbatim>\<open>start\<close> issues the join request first, waits with the budget 42 and calls the
  socket creation only with a true joined flag (lemma \<open>start_after_wait\<close>). But it does
  not report a join that does not come: when the join request raised nothing and the
  radio never answers \<^verbatim>\<open>True\<close>, the wait never gives its budget up, and \<^verbatim>\<open>start\<close> never
  returns. Neither the line \<^verbatim>\<open>Could not join network\<close> nor any other outcome is reached.
\<close>

theorem start_never_joined:
  assumes "start_lora_join s = (Inr u, s1)" and "\<forall>k. \<not> joined_answer (world s) k"
  shows "start s = None"
  using assms by (rule start_hangs)

theorem start_never_joined_witness:
  "start_lora_join (init example_settings (stub_radio never_joined))
     = (Inr (), started never_joined)
   \<and> (\<forall>k. \<not> joined_answer (world (init example_settings (stub_radio never_joined))) k)
   \<and> start (init example_settings (stub_radio never_joined)) = None"
proof -
  have nj: "\<forall>k. \<not> joined_answer (world (init example_settings (stub_radio never_joined))) k"
    by (simp add: init_def stub_radio_def never_joined_def)
  from start_never_joined [OF start_lora_join_example nj] nj show ?thesis
    by (simp add: start_lora_join_example)
qed

section \<open>Sending and receiving\<close>



text \<open>
  C6. In a ready state \<^verbatim>\<open>lora_receive\<close> returns the empty payload the radio layer
  delivers, with its port, as a normal result, logging nothing; \<^verbatim>\<open>lora_send\<close> returns
  whatever count the radio layer accepted, as a normal result; and for the empty payload,
  of which the radio layer can accept between 0 and 0 bytes, that count is 0.
\<close>

theorem lora_transfer_ready:
  assumes "ready s"
  shows "(recv_answer (world s) (transfers s) 256 = Inr ([], port) \<longrightarrow>
            fst (lora_receive s) = Inr ([], port)
            \<and> new_events s (snd (lora_receive s)) = [SockRecvfrom 256, Sleep 6000])
         \<and> (send_answer (world s) (transfers s) payload = Inr n \<longrightarrow>
            fst (lora_send s payload) = Inr n
            \<and> new_events s (snd (lora_send s payload)) = [SockSend payload, Sleep 100, Sleep 100])
         \<and> (send_answer (world s) (transfers s) [] = Inr m \<and> 0 \<le> m \<and> m \<le> int (length ([] :: byte list)) \<longrightarrow>
            fst (lora_send s []) = Inr 0)"
  using assms
  by (auto simp add: ready_def lora_receive_def lora_send_def Let_def signal_sleeps_2
      sleep_def emit_def new_events_def)

theorem lora_transfer_ready_witness:
  "ready ready_state
   \<and> recv_answer (world ready_state) (transfers ready_state) 256 = Inr ([], 1)
   \<and> fst (lora_receive ready_state) = Inr ([], 1)
   \<and> send_answer (world ready_state) (transfers ready_state) [] = Inr 0
   \<and> fst (lora_send ready_state []) = Inr 0
   \<and> new_events ready_state (snd (lora_send ready_state [])) = [SockSend [], Sleep 100, Sleep 100]"
proof -
  have r: "ready ready_state" by (simp add: ready_def ready_state_def)
  have a: "recv_answer (world ready_state) (transfers ready_state) 256 = Inr ([], 1)"
    by (simp add: ready_state_def started_eq stub_radio_def)
  have b: "send_answer (world ready_state) (transfers ready_state) [] = Inr 0"
    by (simp add: ready_state_def started_eq stub_radio_def)
  from lora_transfer_ready [OF r, of 1 "[]" 0 0] r a b show ?thesis by simp
qed

text \<open>
  C7. The delay after a transfer is a constant of the operation: any two sends that
  return, whatever their payloads and states, sleep the same durations (0.1 s twice), and
  any two receives that return, whatever they received, sleep the same duration (6 s).
\<close>

theorem signal_delay_constant:
  assumes "lora_send s1 p1 = (Inr n1, t1)" and "lora_send s2 p2 = (Inr n2, t2)"
    and "lora_receive s3 = (Inr (rx3, port3), t3)"
    and "lora_receive s4 = (Inr (rx4, port4), t4)"
  shows "sleeps (new_events s1 t1) = sleeps (new_events s2 t2)
         \<and> sleeps (new_events s1 t1) = [100, 100]
         \<and> sleeps (new_events s3 t3) = sleeps (new_events s4 t4)
         \<and> sleeps (new_events s3 t3) = [6000]"
proof -
  have snd: "sleeps (new_events s t) = [100, 100]" if "lora_send s p = (Inr n, t)" for s p n t
    using that
    by (auto simp add: lora_send_def Let_def signal_sleeps_2 emit_def new_events_def
        split: option.splits sum.splits)
  have rcv: "sleeps (new_events s t) = [6000]" if "lora_receive s = (Inr (rx, port), t)"
    for s rx port t
    using that
    by (auto simp add: lora_receive_def Let_def sleep_def log_info_def emit_def new_events_def
        split: option.splits sum.splits if_splits)
  from snd[OF assms(1)] snd[OF assms(2)] rcv[OF assms(3)] rcv[OF assms(4)]
  show ?thesis by simp
qed

theorem signal_delay_constant_witness:
  "lora_send ready_state [] =
     (Inr 0, ready_state\<lparr>transfers := 1,
               trace := trace ready_state @ [SockSend [], Sleep 100, Sleep 100]\<rparr>)
   \<and> lora_send ready_state [1, 2, 3] =
     (Inr 3, ready_state\<lparr>transfers := 1,
               trace := trace ready_state @ [SockSend [1, 2, 3], Sleep 100, Sleep 100]\<rparr>)
   \<and> lora_receive ready_state =
     (Inr ([], 1), ready_state\<lparr>transfers := 1,
               trace := trace ready_state @ [SockRecvfrom 256, Sleep 6000]\<rparr>)
   \<and> lora_receive (ready_state\<lparr>transfers := 2\<rparr>) =
     (Inr ([7, 7], 1), ready_state\<lparr>transfers := 3,
               trace := trace ready_state @
                 [SockRecvfrom 256,
                  Log Info ''[LoRa] Received: {}, on port: {}'' [PyBytes [7, 7], PyInt 1],
                  Sleep 6000]\<rparr>)
   \<and> sleeps [SockSend [], Sleep 100, Sleep 100]
       = sleeps [SockSend [1, 2, 3], Sleep 100, Sleep 100]
   \<and> sleeps [SockRecvfrom 256, Sleep 6000]
       = sleeps [SockRecvfrom 256,
                 Log Info ''[LoRa] Received: {}, on port: {}'' [PyBytes [7, 7], PyInt 1],
                 Sleep 6000]"
proof -
  have a: "lora_send ready_state [] =
     (Inr 0, ready_state\<lparr>transfers := 1,
               trace := trace ready_state @ [SockSend [], Sleep 100, Sleep 100]\<rparr>)"
    by (simp add: lora_send_def ready_state_def started_eq stub_radio_def signal_sleeps_2 emit_def)
  have b: "lora_send ready_state [1, 2, 3] =
     (Inr 3, ready_state\<lparr>transfers := 1,
               trace := trace ready_state @ [SockSend [1, 2, 3], Sleep 100, Sleep 100]\<rparr>)"
    by (simp add: lora_send_def ready_state_def started_eq stub_radio_def signal_sleeps_2 emit_def)
  have c: "lora_receive ready_state =
     (Inr ([], 1), ready_state\<lparr>transfers := 1,
               trace := trace ready_state @ [SockRecvfrom 256, Sleep 6000]\<rparr>)"
    by (simp add: lora_receive_def ready_state_def started_eq stub_radio_def sleep_def emit_def)
  have d: "lora_receive (ready_state\<lparr>transfers := 2\<rparr>) =
     (Inr ([7, 7], 1), ready_state\<lparr>transfers := 3,
               trace := trace ready_state @
                 [SockRecvfrom 256,
                  Log Info ''[LoRa] Received: {}, on port: {}'' [PyBytes [7, 7], PyInt 1],
                  Sleep 6000]\<rparr>)"
    by (simp add: lora_receive_def ready_state_def started_eq stub_radio_def sleep_def
        log_info_def emit_def numeral_2_eq_2)
  from signal_delay_constant [OF a b c d] a b c d show ?thesis
    by (simp add: new_events_def)
qed

section \<open>The settings are only read\<close>

text \<open>
  C8. \<^verbatim>\<open>start_lora_join\<close>, however it ends, and \<^verbatim>\<open>wait_for_lora_join\<close>, whenever it
  ends, leave \<^verbatim>\<open>self.settings\<close> and \<^verbatim>\<open>self.otaa_settings\<close> (identifiers, key and region)
  as they found them.
\<close>

theorem join_leaves_settings:
  "settings (snd (start_lora_join s)) = settings s
   \<and> otaa_settings (snd (start_lora_join s)) = otaa_settings s
   \<and> (wait_for_lora_join s attempts = Some (x, s') \<longrightarrow>
        settings s' = settings s \<and> otaa_settings s' = otaa_settings s)"
  using start_lora_join_frame[of s] wait_frame[of s attempts x s'] by simp

theorem join_leaves_settings_witness:
  "wait_for_lora_join (started (joined_from 1)) 1 =
     Some (Inr True,
           (started (joined_from 1))
             \<lparr>lora_joined := Some (PyBool True), polls := 3,
              trace := trace (started (joined_from 1))
                @ [HasJoined, Sleep 2500, Sleep 100, Log Info ''[LoRA] Not joined yet...'' [],
                   HasJoined, HasJoined, Log Info ''[LoRA] joined...'' []]\<rparr>)
   \<and> settings (snd (start_lora_join (init example_settings (stub_radio (joined_from 1)))))
       = example_settings
   \<and> otaa_settings (started (joined_from 1)
             \<lparr>lora_joined := Some (PyBool True), polls := 3,
              trace := trace (started (joined_from 1))
                @ [HasJoined, Sleep 2500, Sleep 100, Log Info ''[LoRA] Not joined yet...'' [],
                   HasJoined, HasJoined, Log Info ''[LoRA] joined...'' []]\<rparr>)
       = Some example_otaa"
proof -
  have run: "wait_for_lora_join (started (joined_from 1)) 1 =
     Some (Inr True,
           (started (joined_from 1))
             \<lparr>lora_joined := Some (PyBool True), polls := 3,
              trace := trace (started (joined_from 1))
                @ [HasJoined, Sleep 2500, Sleep 100, Log Info ''[LoRA] Not joined yet...'' [],
                   HasJoined, HasJoined, Log Info ''[LoRA] joined...'' []]\<rparr>)"
    using wait_joined_closed [of "started (joined_from 1)" "LoRa LORAWAN EU868" 1 1]
    by (simp add: joined_from_def)
  from join_leaves_settings [of "started (joined_from 1)" 1 "Inr True"
      "(started (joined_from 1))
             \<lparr>lora_joined := Some (PyBool True), polls := 3,
              trace := trace (started (joined_from 1))
                @ [HasJoined, Sleep 2500, Sleep 100, Log Info ''[LoRA] Not joined yet...'' [],
                   HasJoined, HasJoined, Log Info ''[LoRA] joined...'' []]\<rparr>"] run
    join_leaves_settings [of "init example_settings (stub_radio (joined_from 1))" 1 "Inr True"
       "started (joined_from 1)"]
  show ?thesis
    by (simp add: started_eq init_def)
qed

end
